theory Spec2Isabelle
  imports Complex_Main
begin

section \<open>The Vercel MCP server (mcp_vercel_server.py)\<close>

text \<open>
  A shallow embedding of the server module: the tool functions, the lookup of a tool by
  name in the module's namespace, and the three request handlers of
  \<open>MCPHTTPHandler\<close>. Every function of the module takes the process state and
  returns the new one. What the module gets from libraries and from the outside (the
  upstream API, the clock, the JSON codec, the interpreter's messages) is a field of the
  record \<open>world\<close>, so every theorem holds for whatever these return.
\<close>

subsection \<open>Python values\<close>

text \<open>
  The values that travel through the server are the ones \<open>json.loads\<close> produces:
  \<open>None\<close>, booleans, integers, floats (by their rational value; infinities and
  NaN are left out), strings, lists and dictionaries with string keys. A dictionary is an
  association list in insertion order, looked up with \<open>map_of\<close>. A string has
  one \<open>char\<close> for each code point.
\<close>

datatype json =
    JNull
  | JBool bool
  | JInt int
  | JFloat rat
  | JStr string
  | JArr "json list"
  | JObj "(string \<times> json) list"

text \<open>
  Exceptions, by class, with a note of the cause. The program only ever reads an
  exception through \<open>str(e)\<close>, which is \<open>str_exc\<close> of the world.
\<close>

datatype pyexc =
    TypeError string
  | ValueError string
  | IndexError string
  | KeyError string
  | UnicodeDecodeError
  | LibraryError string

text \<open>Truthiness, as \<open>if x:\<close> and \<open>not x\<close> test it.\<close>

fun truthy :: "json \<Rightarrow> bool" where
  "truthy JNull = False"
| "truthy (JBool b) = b"
| "truthy (JInt i) = (i \<noteq> 0)"
| "truthy (JFloat r) = (r \<noteq> 0)"
| "truthy (JStr s) = (s \<noteq> [])"
| "truthy (JArr xs) = (xs \<noteq> [])"
| "truthy (JObj kv) = (kv \<noteq> [])"

text \<open>\<open>len(x)\<close>: defined on strings, lists and dictionaries, a TypeError elsewhere.\<close>

fun py_len :: "json \<Rightarrow> pyexc + nat" where
  "py_len (JStr s) = Inr (length s)"
| "py_len (JArr xs) = Inr (length xs)"
| "py_len (JObj kv) = Inr (length kv)"
| "py_len v = Inl (TypeError ''object has no len()'')"

text \<open>
  \<open>x[i]\<close> for a literal index \<open>i \<ge> 0\<close>. A dictionary from JSON has string
  keys only, so an integer key is never found.
\<close>

fun subscript :: "json \<Rightarrow> nat \<Rightarrow> pyexc + json" where
  "subscript (JArr xs) i =
     (if i < length xs then Inr (xs ! i) else Inl (IndexError ''list index out of range''))"
| "subscript (JStr s) i =
     (if i < length s then Inr (JStr [s ! i]) else Inl (IndexError ''string index out of range''))"
| "subscript (JObj kv) i = Inl (KeyError ''integer key'')"
| "subscript v i = Inl (TypeError ''object is not subscriptable'')"

text \<open>\<open>str(n)\<close> for an integer: decimal digits, with a minus sign below zero.\<close>

fun str_nat :: "nat \<Rightarrow> string" where
  "str_nat n =
     (if n < 10 then [char_of (48 + n)]
      else str_nat (n div 10) @ [char_of (48 + n mod 10)])"

declare str_nat.simps [simp del]

definition str_int :: "int \<Rightarrow> string" where
  "str_int i = (if i < 0 then CHR ''-'' # str_nat (nat (- i)) else str_nat (nat i))"

text \<open>
  \<open>s.strip()\<close>: the whitespace of \<open>str.isspace\<close> among the code points below
  256 is removed at both ends.
\<close>

definition isspace :: "char \<Rightarrow> bool" where
  "isspace c = (of_char c \<in> {9, 10, 11, 12, 13, 28, 29, 30, 31, 32, 133, 160 :: nat})"

definition strip :: "string \<Rightarrow> string" where
  "strip s = rev (dropWhile isspace (rev (dropWhile isspace s)))"

text \<open>\<open>sep.join(xs)\<close> on a list of strings.\<close>

fun join :: "string \<Rightarrow> string list \<Rightarrow> string" where
  "join sep [] = []"
| "join sep [x] = x"
| "join sep (x # y # ys) = x @ sep @ join sep (y # ys)"

text \<open>\<open>s.startswith(p)\<close>.\<close>

definition startswith :: "string \<Rightarrow> string \<Rightarrow> bool" where
  "startswith s p = (take (length p) s = p)"

text \<open>\<open>xs.index(v)\<close> for a \<open>v\<close> that is in \<open>xs\<close>: the first position.\<close>

fun index_of :: "json list \<Rightarrow> json \<Rightarrow> nat" where
  "index_of [] v = 0"
| "index_of (x # xs) v = (if x = v then 0 else Suc (index_of xs v))"

subsection \<open>The world and the process state\<close>

text \<open>
  A call of \<open>requests.get(url, headers=..., params=...)\<close>; a call without
  \<open>params\<close> has the empty list.
\<close>

record http_get =
  url :: string
  headers :: "(string \<times> string) list"
  params :: "(string \<times> json) list"

text \<open>
  The \<open>Response\<close> of the upstream: \<open>status_code\<close>, \<open>text\<close> and what
  \<open>json()\<close> does (it raises on a body that is not JSON).
\<close>

record response =
  status_code :: int
  resp_text :: string
  resp_json :: "pyexc + json"

text \<open>What calling a function gives: a JSON value, an object that \<open>json.dumps\<close>
  cannot serialise, an exception, or no return at all.\<close>

datatype outcome =
    Returned json
  | ReturnedObject
  | Raised pyexc
  | NoReturn

text \<open>The callables bound to a name of the module, in the order of their binding.\<close>

datatype callable =
    HTTPServer
  | BaseHTTPRequestHandler
  | FastMCP
  | F_get_registered_tools
  | F_run_vercel_command
  | F_list_projects
  | F_list_deployments
  | F_get_project_info
  | F_set_vercel_token
  | F_check_server_status
  | F_list_project_domains
  | F_list_environment_variables
  | F_get_user_info
  | F_list_deployment_aliases
  | MCPHTTPHandler
  | F_check_port_in_use
  | F_main

text \<open>
  The world: the libraries and the environment of the process.
  \<^item> \<open>requests_get n r\<close>: what \<open>requests.get\<close> does on the request \<open>r\<close> when
    \<open>n\<close> requests went out before it: a response, or an exception;
  \<^item> \<open>isoformat n\<close> and \<open>str_datetime n\<close>: the \<open>n\<close>-th reading of
    \<open>datetime.datetime.now()\<close>, as \<open>.isoformat()\<close> and as \<open>str\<close>;
  \<^item> \<open>str_value\<close>: \<open>str\<close> of a float, a list or a dictionary;
    \<open>str_exc\<close>: \<open>str\<close> of an exception;
  \<^item> \<open>int_of_str\<close>: \<open>int(s)\<close>, None for a ValueError;
    \<open>utf8_decode\<close>: \<open>bytes.decode('utf-8')\<close>, None for a UnicodeDecodeError;
  \<^item> \<open>json_loads\<close>: \<open>json.loads\<close>, None for a JSONDecodeError;
    \<open>json_dumps\<close> and \<open>json_dumps_indent\<close>: \<open>json.dumps(x)\<close> and
    \<open>json.dumps(x, indent=2)\<close>, already encoded;
  \<^item> \<open>subprocess_run\<close>: \<open>subprocess.run(["vercel", "--version"], ...)\<close>, an
    exception or the return code and the standard output; \<open>getpid\<close>: the process id;
  \<^item> \<open>mcp_attrs f\<close>: the names of \<open>dir(f)\<close> that start with \<open>__mcp\<close>
    or contain \<open>mcp\<close> in lower case;
  \<^item> \<open>doc_of f\<close>: the attribute \<open>f.__doc__\<close>, if it is not None;
  \<^item> \<open>foreign_call f p\<close>: what calling \<open>f(**p)\<close> does, for the callables the
    module does not define or that leave the model (the imported classes, the handler
    class, the socket probe and the bootstrap \<open>main\<close>).
\<close>

record world =
  requests_get :: "nat \<Rightarrow> http_get \<Rightarrow> pyexc + response"
  isoformat :: "nat \<Rightarrow> string"
  str_datetime :: "nat \<Rightarrow> string"
  str_value :: "json \<Rightarrow> string"
  str_exc :: "pyexc \<Rightarrow> string"
  int_of_str :: "string \<Rightarrow> int option"
  utf8_decode :: "string \<Rightarrow> string option"
  json_loads :: "string \<Rightarrow> json option"
  json_dumps :: "json \<Rightarrow> string"
  json_dumps_indent :: "json \<Rightarrow> string"
  subprocess_run :: "pyexc + (int \<times> string)"
  getpid :: int
  mcp_attrs :: "callable \<Rightarrow> string list"
  doc_of :: "callable \<Rightarrow> string option"
  foreign_call :: "callable \<Rightarrow> json \<Rightarrow> outcome"

text \<open>
  The state of the process: the module's global \<open>VERCEL_TOKEN\<close>, the lines printed
  so far, the requests sent to the upstream so far (oldest first) and the number of
  readings of the clock so far.
\<close>

record state =
  VERCEL_TOKEN :: json
  stdout :: "string list"
  outbound :: "http_get list"
  clock_reads :: nat

text \<open>\<open>print(line)\<close>.\<close>

definition py_print :: "string \<Rightarrow> state \<Rightarrow> state" where
  "py_print line s = s\<lparr>stdout := stdout s @ [line]\<rparr>"

text \<open>\<open>datetime.datetime.now()\<close>: the reading, by its number, and the state after it.\<close>

definition datetime_now :: "state \<Rightarrow> nat \<times> state" where
  "datetime_now s = (clock_reads s, s\<lparr>clock_reads := Suc (clock_reads s)\<rparr>)"

text \<open>A value inside an f-string: \<open>f"{v}"\<close>.\<close>

fun fmt :: "world \<Rightarrow> json \<Rightarrow> string" where
  "fmt w (JStr s) = s"
| "fmt w (JInt i) = str_int i"
| "fmt w JNull = ''None''"
| "fmt w (JBool b) = (if b then ''True'' else ''False'')"
| "fmt w v = str_value w v"

text \<open>\<open>requests.get\<close>: the request goes out and the world answers.\<close>

definition do_get :: "world \<Rightarrow> http_get \<Rightarrow> state \<Rightarrow> (pyexc + response) \<times> state" where
  "do_get w r s = (requests_get w (length (outbound s)) r, s\<lparr>outbound := outbound s @ [r]\<rparr>)"

subsection \<open>The envelope and the call of the upstream API\<close>

text \<open>
  The tools repeat the same lines: the test of the token with its error envelope, the
  headers, \<open>requests.get\<close>, the envelope made from the response, and the
  \<open>except Exception\<close> clause (\<open>list_projects\<close> has the last four through
  \<open>run_vercel_command\<close>). Each of these blocks is one definition here, used wherever
  the source repeats it.
\<close>

definition base_url :: string where
  "base_url = ''https://api.vercel.com''"

text \<open>\<open>datetime.datetime.now().isoformat()\<close>.\<close>

definition timestamp :: "world \<Rightarrow> state \<Rightarrow> json \<times> state" where
  "timestamp w s = (case datetime_now s of (d, s1) \<Rightarrow> (JStr (isoformat w d), s1))"

text \<open>\<open>print(f"...{datetime.datetime.now()}")\<close>: the line ends with the reading.\<close>

definition print_now :: "world \<Rightarrow> string \<Rightarrow> state \<Rightarrow> state" where
  "print_now w line s = (case datetime_now s of (d, s1) \<Rightarrow> py_print (line @ str_datetime w d) s1)"

text \<open>The envelope returned under \<open>if not VERCEL_TOKEN:\<close>.\<close>

definition token_not_configured :: "world \<Rightarrow> state \<Rightarrow> json \<times> state" where
  "token_not_configured w s =
     (case timestamp w s of (ts, s1) \<Rightarrow>
        (JObj [(''status'', JStr ''error''),
               (''message'', JStr
                  ''Vercel token not configured. Please set the VERCEL_TOKEN environment variable.''),
               (''timestamp'', ts)], s1))"

text \<open>The headers of every request to the upstream.\<close>

definition api_headers :: "world \<Rightarrow> state \<Rightarrow> (string \<times> string) list" where
  "api_headers w s =
     [(''Authorization'', ''Bearer '' @ fmt w (VERCEL_TOKEN s)),
      (''Content-Type'', ''application/json'')]"

text \<open>
  The lines under \<open># Process the response\<close>. The dictionary is built in the order
  written, so \<open>response.json()\<close> runs, and may raise, before the clock is read.
\<close>

definition process_response :: "world \<Rightarrow> response \<Rightarrow> state \<Rightarrow> (pyexc + json) \<times> state" where
  "process_response w r s =
     (if 200 \<le> status_code r \<and> status_code r < 300 then
        (case resp_json r of
           Inl e \<Rightarrow> (Inl e, s)
         | Inr j \<Rightarrow>
             (case timestamp w s of (ts, s1) \<Rightarrow>
                (Inr (JObj [(''status'', JStr ''success''),
                            (''data'', j),
                            (''timestamp'', ts)]), s1)))
      else
        (case timestamp w s of (ts, s1) \<Rightarrow>
           (Inr (JObj [(''status'', JStr ''error''),
                       (''message'', JStr (''API request failed with status code ''
                                            @ str_int (status_code r))),
                       (''error'', JStr (resp_text r)),
                       (''timestamp'', ts)]), s1)))"

text \<open>The clause \<open>except Exception as e:\<close> of the tools.\<close>

definition except_handler :: "world \<Rightarrow> pyexc \<Rightarrow> state \<Rightarrow> json \<times> state" where
  "except_handler w e s =
     (case timestamp w (py_print (''Error calling Vercel API: '' @ str_exc w e) s) of
        (ts, s1) \<Rightarrow>
          (JObj [(''status'', JStr ''error''),
                 (''message'', JStr (''Error: '' @ str_exc w e)),
                 (''timestamp'', ts)], s1))"

text \<open>The request, the envelope of its response, and the \<open>except\<close> clause around both.\<close>

definition api_get :: "world \<Rightarrow> string \<Rightarrow> (string \<times> json) list \<Rightarrow> state \<Rightarrow> json \<times> state" where
  "api_get w endpoint ps s =
     (case do_get w \<lparr>url = base_url @ endpoint, headers = api_headers w s, params = ps\<rparr> s of
        (Inl e, s1) \<Rightarrow> except_handler w e s1
      | (Inr r, s1) \<Rightarrow>
          (case process_response w r s1 of
             (Inl e, s2) \<Rightarrow> except_handler w e s2
           | (Inr env, s2) \<Rightarrow> (env, s2)))"

subsection \<open>run_vercel_command\<close>

text \<open>The strings of a list whose items are all strings.\<close>

fun strs_of :: "json list \<Rightarrow> string list option" where
  "strs_of [] = Some []"
| "strs_of (JStr s # vs) = (case strs_of vs of None \<Rightarrow> None | Some ss \<Rightarrow> Some (s # ss))"
| "strs_of (v # vs) = None"

text \<open>
  \<open>sep.join(x)\<close>: the items of a list must be strings; a string is joined character by
  character, a dictionary key by key.
\<close>

fun py_join :: "string \<Rightarrow> json \<Rightarrow> pyexc + string" where
  "py_join sep (JArr xs) =
     (case strs_of xs of
        None \<Rightarrow> Inl (TypeError ''sequence item: expected str instance'')
      | Some ss \<Rightarrow> Inr (join sep ss))"
| "py_join sep (JStr s) = Inr (join sep (map (\<lambda>c. [c]) s))"
| "py_join sep (JObj kv) = Inr (join sep (map fst kv))"
| "py_join sep v = Inl (TypeError ''can only join an iterable'')"

text \<open>The query parameters of the branch \<open>list\<close>, from a list of arguments.\<close>

definition list_params :: "json list \<Rightarrow> (string \<times> json) list" where
  "list_params command_args =
     (let ps = (if 1 < length command_args \<and> command_args ! 1 \<noteq> JStr ''--limit''
                then [(''name'', command_args ! 1)] else [])
      in if JStr ''--limit'' \<in> set command_args
         then (let limit_index = index_of command_args (JStr ''--limit'')
               in if limit_index + 1 < length command_args
                  then ps @ [(''limit'', command_args ! (limit_index + 1))]
                  else ps)
         else ps)"

text \<open>The branch \<open>else\<close>: the command is not supported.\<close>

definition unsupported_command :: "world \<Rightarrow> json \<Rightarrow> state \<Rightarrow> json \<times> state" where
  "unsupported_command w command_args s =
     (case py_join '' '' command_args of
        Inl e \<Rightarrow> except_handler w e s
      | Inr joined \<Rightarrow>
          (case timestamp w s of (ts, s1) \<Rightarrow>
             (JObj [(''status'', JStr ''error''),
                    (''message'', JStr (''Unsupported command: '' @ joined)),
                    (''timestamp'', ts)], s1)))"

text \<open>
  \<open>run_vercel_command(command_args)\<close>. The whole body stands in a \<open>try\<close>, so a
  subscript that fails ends in the \<open>except\<close> clause. In the branch \<open>list\<close> the
  argument is a list (see \<open>subscript_list\<close> below): the first item of a string is one
  character.
\<close>

definition run_vercel_command :: "world \<Rightarrow> json \<Rightarrow> state \<Rightarrow> json \<times> state" where
  "run_vercel_command w command_args s =
     (case subscript command_args 0 of
        Inl e \<Rightarrow> except_handler w e s
      | Inr c0 \<Rightarrow>
          if c0 = JStr ''ls'' \<or>
             ((case py_len command_args of Inl e \<Rightarrow> False | Inr n \<Rightarrow> 2 \<le> n) \<and>
              c0 = JStr ''project'' \<and> subscript command_args 1 = Inr (JStr ''ls''))
          then api_get w ''/v9/projects'' [] s
          else if c0 = JStr ''list'' then
            (case command_args of
               JArr xs \<Rightarrow> api_get w ''/v6/deployments'' (list_params xs) s
             | _ \<Rightarrow> except_handler w (TypeError ''command_args is not a list'') s)
          else unsupported_command w command_args s)"

subsection \<open>The tools\<close>

definition list_projects :: "world \<Rightarrow> state \<Rightarrow> json \<times> state" where
  "list_projects w s =
     (let s1 = print_now w ''Tool call: list_projects at '' s
      in if \<not> truthy (VERCEL_TOKEN s1) then token_not_configured w s1
         else run_vercel_command w (JArr [JStr ''ls'']) s1)"

definition list_deployments :: "world \<Rightarrow> json \<Rightarrow> json \<Rightarrow> state \<Rightarrow> json \<times> state" where
  "list_deployments w project_id limit s =
     (let s1 = print_now w (''Tool call: list_deployments for project_id: ''
                             @ fmt w project_id @ '' at '') s
      in if \<not> truthy (VERCEL_TOKEN s1) then token_not_configured w s1
         else api_get w ''/v6/deployments''
                ((if truthy project_id then [(''projectId'', project_id)] else []) @
                 (if truthy limit then [(''limit'', limit)] else [])) s1)"

definition get_project_info :: "world \<Rightarrow> json \<Rightarrow> state \<Rightarrow> json \<times> state" where
  "get_project_info w project_id s =
     (let s1 = print_now w ''Tool call: get_project_info at '' s
      in if \<not> truthy (VERCEL_TOKEN s1) then token_not_configured w s1
         else api_get w (''/v9/projects/'' @ fmt w project_id) [] s1)"

text \<open>
  The masked token of \<open>set_vercel_token\<close>:
  \<open>token[:4] + "****" + token[-4:] if len(token) > 8 else "****"\<close>. The length is
  taken first. A list of more than 8 items cannot be added to a string, and a dictionary
  takes no slice.
\<close>

fun masked_token :: "json \<Rightarrow> pyexc + string" where
  "masked_token (JStr token) =
     Inr (if 8 < length token
          then take 4 token @ ''****'' @ drop (length token - 4) token
          else ''****'')"
| "masked_token (JArr xs) =
     (if 8 < length xs then Inl (TypeError ''can only concatenate list to list'')
      else Inr ''****'')"
| "masked_token (JObj kv) =
     (if 8 < length kv then Inl (TypeError ''a dict takes no slice'') else Inr ''****'')"
| "masked_token v = Inl (TypeError ''object has no len()'')"

text \<open>
  \<open>set_vercel_token(token)\<close>: the global is assigned before the masked token is
  computed, so the assignment stays when that raises.
\<close>

definition set_vercel_token :: "world \<Rightarrow> json \<Rightarrow> state \<Rightarrow> (pyexc + json) \<times> state" where
  "set_vercel_token w token s =
     (let s1 = print_now w ''Tool call: set_vercel_token at '' s;
          s2 = s1\<lparr>VERCEL_TOKEN := token\<rparr>
      in case masked_token token of
           Inl e \<Rightarrow> (Inl e, s2)
         | Inr masked \<Rightarrow>
             (case timestamp w (py_print (''Vercel token updated: '' @ masked) s2) of
                (ts, s3) \<Rightarrow>
                  (Inr (JObj [(''status'', JStr ''success''),
                              (''message'', JStr ''Vercel token updated successfully''),
                              (''timestamp'', ts)]), s3)))"

definition check_server_status :: "world \<Rightarrow> state \<Rightarrow> json \<times> state" where
  "check_server_status w s =
     (let s1 = print_now w ''Tool call: check_server_status at '' s;
          vercel_installed = (case subprocess_run w of Inl e \<Rightarrow> False | Inr (rc, out) \<Rightarrow> rc = 0);
          vercel_version = (case subprocess_run w of
                              Inl e \<Rightarrow> ''Not installed''
                            | Inr (rc, out) \<Rightarrow> if rc = 0 then strip out else ''Not installed'');
          token_configured = truthy (VERCEL_TOKEN s1)
      in case timestamp w s1 of (ts, s2) \<Rightarrow>
           (JObj [(''status'', JStr ''online''),
                  (''server_name'', JStr ''MCP Vercel CLI Server''),
                  (''version'', JStr ''1.0.0''),
                  (''vercel_cli_installed'', JBool vercel_installed),
                  (''vercel_cli_version'', JStr vercel_version),
                  (''vercel_token_configured'', JBool token_configured),
                  (''pid'', JInt (getpid w)),
                  (''timestamp'', ts)], s2))"

definition list_project_domains :: "world \<Rightarrow> json \<Rightarrow> state \<Rightarrow> json \<times> state" where
  "list_project_domains w project_id s =
     (let s1 = print_now w ''Tool call: list_project_domains at '' s
      in if \<not> truthy (VERCEL_TOKEN s1) then token_not_configured w s1
         else api_get w (''/v9/projects/'' @ fmt w project_id @ ''/domains'') [] s1)"

definition list_environment_variables :: "world \<Rightarrow> json \<Rightarrow> state \<Rightarrow> json \<times> state" where
  "list_environment_variables w project_id s =
     (let s1 = print_now w ''Tool call: list_environment_variables at '' s
      in if \<not> truthy (VERCEL_TOKEN s1) then token_not_configured w s1
         else api_get w (''/v9/projects/'' @ fmt w project_id @ ''/env'') [] s1)"

definition get_user_info :: "world \<Rightarrow> state \<Rightarrow> json \<times> state" where
  "get_user_info w s =
     (let s1 = print_now w ''Tool call: get_user_info at '' s
      in if \<not> truthy (VERCEL_TOKEN s1) then token_not_configured w s1
         else api_get w ''/v2/user'' [] s1)"

definition list_deployment_aliases :: "world \<Rightarrow> json \<Rightarrow> state \<Rightarrow> json \<times> state" where
  "list_deployment_aliases w deployment_id s =
     (let s1 = print_now w ''Tool call: list_deployment_aliases at '' s
      in if \<not> truthy (VERCEL_TOKEN s1) then token_not_configured w s1
         else api_get w (''/v2/deployments/'' @ fmt w deployment_id @ ''/aliases'') [] s1)"

subsection \<open>The module's namespace and get_registered_tools\<close>

text \<open>
  \<open>globals()\<close>, restricted to the names bound to a callable, in the order of binding:
  the three imported classes, the functions and the handler class. Every other name of
  the module (the imported modules, \<open>mcp\<close>, \<open>HOST\<close>, \<open>PORT\<close>,
  \<open>VERCEL_TOKEN\<close> and the names the interpreter adds) is bound to a value that is
  not callable. The decorator \<open>mcp.tool()\<close> leaves the function it decorates bound to
  its name.
\<close>

definition module_callables :: "(string \<times> callable) list" where
  "module_callables =
     [(''HTTPServer'', HTTPServer),
      (''BaseHTTPRequestHandler'', BaseHTTPRequestHandler),
      (''FastMCP'', FastMCP),
      (''get_registered_tools'', F_get_registered_tools),
      (''run_vercel_command'', F_run_vercel_command),
      (''list_projects'', F_list_projects),
      (''list_deployments'', F_list_deployments),
      (''get_project_info'', F_get_project_info),
      (''set_vercel_token'', F_set_vercel_token),
      (''check_server_status'', F_check_server_status),
      (''list_project_domains'', F_list_project_domains),
      (''list_environment_variables'', F_list_environment_variables),
      (''get_user_info'', F_get_user_info),
      (''list_deployment_aliases'', F_list_deployment_aliases),
      (''MCPHTTPHandler'', MCPHTTPHandler),
      (''check_port_in_use'', F_check_port_in_use),
      (''main'', F_main)]"

text \<open>The list \<open>known_tools\<close>, which is also the hardcoded list.\<close>

definition known_tools :: "string list" where
  "known_tools =
     [''list_projects'', ''list_deployments'', ''get_project_info'',
      ''check_server_status'', ''set_vercel_token'', ''list_project_domains'',
      ''list_environment_variables'', ''get_user_info'', ''list_deployment_aliases'']"

text \<open>
  The check mark that the source prints is a code point above 255; it stands here as the
  three bytes of its UTF-8 encoding.
\<close>

definition check_mark :: string where
  "check_mark = [CHR 0xE2, CHR 0x9C, CHR 0x93]"

text \<open>The body of the loop over \<open>globals().items()\<close>, for one callable.\<close>

definition inspect :: "world \<Rightarrow> string \<times> callable \<Rightarrow> string list \<times> state \<Rightarrow> string list \<times> state" where
  "inspect w binding acc =
     (case binding of (name, func) \<Rightarrow>
      case acc of (tools, s) \<Rightarrow>
        (let s1 = py_print (''Checking function: '' @ name) s;
             tool_attrs = mcp_attrs w func;
             s2 = (if tool_attrs \<noteq> []
                   then py_print (''  Found MCP-related attributes: '' @ join '', '' tool_attrs) s1
                   else s1);
             s3 = (if name \<in> set known_tools
                   then py_print ''  Recognized as known tool by name'' s2
                   else s2)
         in if tool_attrs \<noteq> [] \<or> name \<in> set known_tools
            then (tools @ [name], py_print (''  '' @ check_mark @ '' Added tool: '' @ name) s3)
            else (tools, s3)))"

definition get_registered_tools :: "world \<Rightarrow> state \<Rightarrow> string list \<times> state" where
  "get_registered_tools w s =
     (let s1 = py_print (CHR 0x0A # ''=== TOOL DISCOVERY ==='') s;
          s2 = py_print ''Looking for registered tools...'' s1
      in case fold (inspect w) module_callables ([], s2) of (found, s3) \<Rightarrow>
         case (if found = []
               then (known_tools,
                     fold (\<lambda>tool. py_print (''  '' @ check_mark @ '' Added hardcoded tool: '' @ tool))
                       known_tools
                       (py_print ''No tools found via function inspection, using hardcoded list'' s3))
               else (found, s3)) of (tools, s4) \<Rightarrow>
           (tools, py_print (''Total tools discovered: '' @ str_nat (length tools)) s4))"

subsection \<open>Calling a function with keyword arguments\<close>

text \<open>
  The parameters of each function the module defines, as its \<open>def\<close> line has them:
  the name and the default value, None for a required parameter. The signatures of the
  classes are not in the source.
\<close>

fun parameters :: "callable \<Rightarrow> (string \<times> json option) list option" where
  "parameters F_get_registered_tools = Some []"
| "parameters F_run_vercel_command = Some [(''command_args'', None)]"
| "parameters F_list_projects = Some []"
| "parameters F_list_deployments = Some [(''project_id'', Some JNull), (''limit'', Some (JInt 5))]"
| "parameters F_get_project_info = Some [(''project_id'', None)]"
| "parameters F_set_vercel_token = Some [(''token'', None)]"
| "parameters F_check_server_status = Some []"
| "parameters F_list_project_domains = Some [(''project_id'', None)]"
| "parameters F_list_environment_variables = Some [(''project_id'', None)]"
| "parameters F_get_user_info = Some []"
| "parameters F_list_deployment_aliases = Some [(''deployment_id'', None)]"
| "parameters F_check_port_in_use = Some [(''host'', None), (''port'', None)]"
| "parameters F_main = Some []"
| "parameters HTTPServer = None"
| "parameters BaseHTTPRequestHandler = None"
| "parameters FastMCP = None"
| "parameters MCPHTTPHandler = None"

text \<open>
  \<open>f(**kwargs)\<close>, up to the body of \<open>f\<close>: \<open>kwargs\<close> must be a mapping, a key
  that names no parameter is a TypeError, and so is a required parameter without a key.
  The result gives every parameter its value.
\<close>

definition bind_kwargs :: "(string \<times> json option) list \<Rightarrow> json \<Rightarrow> pyexc + (string \<Rightarrow> json)" where
  "bind_kwargs ps kwargs =
     (case kwargs of
        JObj kv \<Rightarrow>
          (case filter (\<lambda>k. k \<notin> set (map fst ps)) (map fst kv) of
             k # ks \<Rightarrow> Inl (TypeError (''got an unexpected keyword argument '' @ k))
           | [] \<Rightarrow>
               (case filter (\<lambda>p. snd p = None \<and> fst p \<notin> set (map fst kv)) ps of
                  p # ms \<Rightarrow> Inl (TypeError (''missing required positional argument '' @ fst p))
                | [] \<Rightarrow>
                    Inr (\<lambda>n. case map_of kv n of
                                Some v \<Rightarrow> v
                              | None \<Rightarrow> (case map_of ps n of Some (Some d) \<Rightarrow> d | _ \<Rightarrow> JNull))))
      | _ \<Rightarrow> Inl (TypeError ''argument after ** must be a mapping''))"

definition returned :: "json \<times> state \<Rightarrow> outcome \<times> state" where
  "returned r = (case r of (v, s) \<Rightarrow> (Returned v, s))"

text \<open>
  The body of each function, on the values of its parameters. The socket probe
  \<open>check_port_in_use\<close> and the bootstrap \<open>main\<close> leave the model: the world says
  what they do.
\<close>

fun run_body :: "world \<Rightarrow> callable \<Rightarrow> (string \<Rightarrow> json) \<Rightarrow> json \<Rightarrow> state \<Rightarrow> outcome \<times> state" where
  "run_body w F_get_registered_tools a kwargs s =
     (case get_registered_tools w s of (tools, s1) \<Rightarrow> (Returned (JArr (map JStr tools)), s1))"
| "run_body w F_run_vercel_command a kwargs s = returned (run_vercel_command w (a ''command_args'') s)"
| "run_body w F_list_projects a kwargs s = returned (list_projects w s)"
| "run_body w F_list_deployments a kwargs s =
     returned (list_deployments w (a ''project_id'') (a ''limit'') s)"
| "run_body w F_get_project_info a kwargs s = returned (get_project_info w (a ''project_id'') s)"
| "run_body w F_set_vercel_token a kwargs s =
     (case set_vercel_token w (a ''token'') s of
        (Inl e, s1) \<Rightarrow> (Raised e, s1)
      | (Inr v, s1) \<Rightarrow> (Returned v, s1))"
| "run_body w F_check_server_status a kwargs s = returned (check_server_status w s)"
| "run_body w F_list_project_domains a kwargs s =
     returned (list_project_domains w (a ''project_id'') s)"
| "run_body w F_list_environment_variables a kwargs s =
     returned (list_environment_variables w (a ''project_id'') s)"
| "run_body w F_get_user_info a kwargs s = returned (get_user_info w s)"
| "run_body w F_list_deployment_aliases a kwargs s =
     returned (list_deployment_aliases w (a ''deployment_id'') s)"
| "run_body w f a kwargs s = (foreign_call w f kwargs, s)"

text \<open>\<open>tool_func(**params)\<close>.\<close>

definition call_function :: "world \<Rightarrow> callable \<Rightarrow> json \<Rightarrow> state \<Rightarrow> outcome \<times> state" where
  "call_function w f kwargs s =
     (case parameters f of
        None \<Rightarrow> (foreign_call w f kwargs, s)
      | Some ps \<Rightarrow>
          (case bind_kwargs ps kwargs of
             Inl e \<Rightarrow> (Raised e, s)
           | Inr a \<Rightarrow> run_body w f a kwargs s))"

subsection \<open>The request handler\<close>

text \<open>
  A request as the handler reads it: the path, the header \<open>Content-Length\<close> if there
  is one, and the bytes that follow the headers until the client stops sending.
\<close>

record request =
  path :: string
  content_length :: "string option"
  rfile :: string

text \<open>
  A response as the handler writes it: the status, the headers it sends with
  \<open>send_header\<close>, in order, and the body. The headers \<open>Server\<close> and \<open>Date\<close>,
  which \<open>send_response\<close> adds by itself, are not listed.
\<close>

record http_response =
  status :: nat
  sent_headers :: "(string \<times> string) list"
  body :: string

text \<open>
  What a handler method does with a request: it writes a response, or an exception
  leaves the method, or the method does not return.
\<close>

datatype served =
    Sent http_response
  | Propagated pyexc
  | Hung

definition send_json_response :: "world \<Rightarrow> json \<Rightarrow> state \<Rightarrow> http_response \<times> state" where
  "send_json_response w data s =
     (let response_bytes = json_dumps_indent w data;
          s1 = py_print ''Sending JSON response:'' s;
          s2 = py_print (json_dumps_indent w data) s1
      in (\<lparr>status = 200,
           sent_headers =
             [(''Content-type'', ''application/json''),
              (''Access-Control-Allow-Origin'', ''*''),
              (''Connection'', ''close''),
              (''Content-Length'', str_nat (length response_bytes))],
           body = response_bytes\<rparr>, s2))"

definition handle_error :: "world \<Rightarrow> nat \<Rightarrow> string \<Rightarrow> http_response" where
  "handle_error w code message =
     (let error_json = json_dumps w (JObj [(''error'', JStr message)])
      in \<lparr>status = code,
          sent_headers =
            [(''Content-type'', ''application/json''),
             (''Connection'', ''close''),
             (''Content-Length'', str_nat (length error_json))],
          body = error_json\<rparr>)"

definition do_OPTIONS :: "http_response" where
  "do_OPTIONS =
     \<lparr>status = 200,
      sent_headers =
        [(''Access-Control-Allow-Origin'', ''*''),
         (''Access-Control-Allow-Methods'', ''GET, POST, OPTIONS''),
         (''Access-Control-Allow-Headers'', ''Content-Type'')],
      body = []\<rparr>"

text \<open>The entry of \<open>GET /tools\<close> for one tool name.\<close>

definition describe :: "world \<Rightarrow> string \<Rightarrow> json" where
  "describe w tool_name =
     JObj [(''name'', JStr tool_name),
           (''description'', JStr
              (case map_of module_callables tool_name of
                 None \<Rightarrow> ''No description available''
               | Some tool_func \<Rightarrow>
                   (case doc_of w tool_func of
                      None \<Rightarrow> ''No description available''
                    | Some d \<Rightarrow> if d = [] then ''No description available'' else strip d)))]"

definition do_GET :: "world \<Rightarrow> request \<Rightarrow> state \<Rightarrow> http_response \<times> state" where
  "do_GET w req s =
     (let s1 = py_print (''Received GET request: '' @ path req) s
      in if path req = ''/tools'' then
           (case get_registered_tools w (print_now w ''MCP tool discovery request received at '' s1) of
              (registered_tools, s2) \<Rightarrow>
                send_json_response w (JArr (map (describe w) registered_tools)) s2)
         else if path req = ''/'' then
           send_json_response w
             (JObj [(''name'', JStr ''MCP Vercel CLI Server''),
                    (''version'', JStr ''1.0.0''),
                    (''description'', JStr
                       ''A server that implements the Model Context Protocol for Vercel CLI operations''),
                    (''status'', JStr ''running'')]) s1
         else (handle_error w 404 (''Not found: '' @ path req), s1))"

text \<open>
  The body of the request, as \<open>do_POST\<close> reads it: \<open>int\<close> of the header (0 without
  one), \<open>rfile.read\<close> of that many bytes (all of them below zero) and the decoding.
  Neither \<open>int\<close> nor \<open>decode\<close> stands in a \<open>try\<close>.
\<close>

definition read_post_data :: "world \<Rightarrow> request \<Rightarrow> pyexc + string" where
  "read_post_data w req =
     (case (case content_length req of None \<Rightarrow> Some 0 | Some h \<Rightarrow> int_of_str w h) of
        None \<Rightarrow> Inl (ValueError ''invalid literal for int()'')
      | Some n \<Rightarrow>
          (case utf8_decode w (if n < 0 then rfile req else take (nat n) (rfile req)) of
             None \<Rightarrow> Inl UnicodeDecodeError
           | Some post_data \<Rightarrow> Inr post_data))"

text \<open>The parameters: the empty dictionary for an empty body, \<open>json.loads\<close> otherwise.\<close>

definition parse_params :: "world \<Rightarrow> string \<Rightarrow> json option" where
  "parse_params w post_data = (if post_data \<noteq> [] then json_loads w post_data else Some (JObj []))"

text \<open>The lines under \<open># Call the tool\<close>, with their \<open>except Exception\<close> clause.\<close>

definition tool_error :: "world \<Rightarrow> string \<Rightarrow> pyexc \<Rightarrow> state \<Rightarrow> served \<times> state" where
  "tool_error w tool_name e s =
     (Sent (handle_error w 500 (''Error calling tool: '' @ str_exc w e)),
      py_print (''Error calling tool '' @ tool_name @ '': '' @ str_exc w e) s)"

definition call_tool :: "world \<Rightarrow> string \<Rightarrow> callable \<Rightarrow> json \<Rightarrow> state \<Rightarrow> served \<times> state" where
  "call_tool w tool_name tool_func ps s =
     (case call_function w tool_func ps
             (py_print (''Calling tool: '' @ tool_name @ '' with params: '' @ fmt w ps) s) of
        (Returned result, s1) \<Rightarrow>
          (case send_json_response w result s1 of (r, s2) \<Rightarrow> (Sent r, s2))
      | (ReturnedObject, s1) \<Rightarrow>
          tool_error w tool_name (TypeError ''Object is not JSON serializable'') s1
      | (Raised e, s1) \<Rightarrow> tool_error w tool_name e s1
      | (NoReturn, s1) \<Rightarrow> (Hung, s1))"

definition do_POST :: "world \<Rightarrow> request \<Rightarrow> state \<Rightarrow> served \<times> state" where
  "do_POST w req s =
     (let s1 = py_print (''Received POST request: '' @ path req) s
      in if startswith (path req) ''/tools/'' then
           (let tool_name = drop 7 (path req);
                s2 = py_print (''Calling tool: '' @ tool_name) s1
            in case read_post_data w req of
                 Inl e \<Rightarrow> (Propagated e, s2)
               | Inr post_data \<Rightarrow>
                   (case parse_params w post_data of
                      None \<Rightarrow> (Sent (handle_error w 400 ''Invalid JSON in request body''), s2)
                    | Some ps \<Rightarrow>
                        (case map_of module_callables tool_name of
                           None \<Rightarrow>
                             (Sent (handle_error w 404
                                      (''Tool '' @ [CHR 0x27] @ tool_name @ [CHR 0x27] @ '' not found'')),
                              s2)
                         | Some tool_func \<Rightarrow> call_tool w tool_name tool_func ps s2)))
         else (Sent (handle_error w 404 (''Not found: '' @ path req)), s1))"

subsection \<open>Reading an envelope\<close>

text \<open>\<open>d.get(k)\<close> on a value that may be a dictionary.\<close>

definition field :: "json \<Rightarrow> string \<Rightarrow> json option" where
  "field v k = (case v of JObj kv \<Rightarrow> map_of kv k | _ \<Rightarrow> None)"



subsection \<open>Test doubles\<close>

text \<open>
  A world for the concrete runs below: the upstream gives the same answer to every
  request, the clock stands still, the interpreter's renderings are fixed texts, and the
  JSON decoder knows the three bodies \<open>{}\<close>, \<open>{"foo": 1}\<close> and
  \<open>{"token": "abcd1234efgh"}\<close> and refuses every other text, as it does the body
  \<open>{\<close>.
\<close>

definition body_foo :: string where
  "body_foo = ''{'' @ [CHR 0x22] @ ''foo'' @ [CHR 0x22] @ '': 1}''"

definition body_token :: string where
  "body_token = ''{'' @ [CHR 0x22] @ ''token'' @ [CHR 0x22] @ '': '' @ [CHR 0x22]
                 @ ''abcd1234efgh'' @ [CHR 0x22] @ ''}''"

definition stub_world :: "(pyexc + response) \<Rightarrow> world" where
  "stub_world answer =
     \<lparr>requests_get = (\<lambda>n q. answer),
      isoformat = (\<lambda>n. ''2025-01-01T00:00:00''),
      str_datetime = (\<lambda>n. ''2025-01-01 00:00:00''),
      str_value = (\<lambda>v. ''<value>''),
      str_exc = (\<lambda>e. ''<exception>''),
      int_of_str = map_of [(''0'', 0), (''1'', 1), (''2'', 2), (''10'', 10), (''25'', 25)],
      utf8_decode = Some,
      json_loads = map_of [(''{}'', JObj []),
                           (body_foo, JObj [(''foo'', JInt 1)]),
                           (body_token, JObj [(''token'', JStr ''abcd1234efgh'')])],
      json_dumps = (\<lambda>v. ''<json>''),
      json_dumps_indent = (\<lambda>v. ''<json>''),
      subprocess_run = Inl (LibraryError ''FileNotFoundError''),
      getpid = 4242,
      mcp_attrs = (\<lambda>f. []),
      doc_of = (\<lambda>f. None),
      foreign_call = (\<lambda>f kwargs. Raised (TypeError ''missing arguments''))\<rparr>"

text \<open>Three answers of the upstream: 200 with a JSON body, 404, and 200 with a body
  that is not JSON.\<close>

definition answer_200 :: "pyexc + response" where
  "answer_200 = Inr \<lparr>status_code = 200, resp_text = ''<body>'',
                     resp_json = Inr (JObj [(''x'', JInt 1)])\<rparr>"

definition answer_404 :: "pyexc + response" where
  "answer_404 = Inr \<lparr>status_code = 404, resp_text = ''not found'',
                     resp_json = Inl (ValueError ''Expecting value'')\<rparr>"

definition answer_200_not_json :: "pyexc + response" where
  "answer_200_not_json = Inr \<lparr>status_code = 200, resp_text = ''OK'',
                              resp_json = Inl (ValueError ''Expecting value'')\<rparr>"

text \<open>A fresh process with the given token.\<close>

definition stub_state :: "string \<Rightarrow> state" where
  "stub_state token = \<lparr>VERCEL_TOKEN = JStr token, stdout = [], outbound = [], clock_reads = 0\<rparr>"

subsection \<open>Comparing envelopes\<close>


text \<open>
  The envelope that the lines under \<open># Process the response\<close>, with the
  \<open>except\<close> clause around them, make of a response, given the reading of the clock.
\<close>

definition envelope_for :: "world \<Rightarrow> response \<Rightarrow> string \<Rightarrow> json" where
  "envelope_for w r ts =
     (if 200 \<le> status_code r \<and> status_code r < 300 then
        (case resp_json r of
           Inr j \<Rightarrow> JObj [(''status'', JStr ''success''), (''data'', j),
                          (''timestamp'', JStr ts)]
         | Inl e \<Rightarrow> JObj [(''status'', JStr ''error''),
                          (''message'', JStr (''Error: '' @ str_exc w e)),
                          (''timestamp'', JStr ts)])
      else JObj [(''status'', JStr ''error''),
                 (''message'', JStr (''API request failed with status code ''
                                      @ str_int (status_code r))),
                 (''error'', JStr (resp_text r)),
                 (''timestamp'', JStr ts)])"

section \<open>Properties\<close>

subsection \<open>What the shared blocks do to the state\<close>

lemma print_now_effect:
  "print_now w line s =
     s\<lparr>stdout := stdout s @ [line @ str_datetime w (clock_reads s)],
       clock_reads := Suc (clock_reads s)\<rparr>"
  by (simp add: print_now_def datetime_now_def py_print_def)

lemma timestamp_effect:
  "timestamp w s = (JStr (isoformat w (clock_reads s)), s\<lparr>clock_reads := Suc (clock_reads s)\<rparr>)"
  by (simp add: timestamp_def datetime_now_def)

lemma token_not_configured_effect:
  "token_not_configured w s =
     (JObj [(''status'', JStr ''error''),
            (''message'', JStr
               ''Vercel token not configured. Please set the VERCEL_TOKEN environment variable.''),
            (''timestamp'', JStr (isoformat w (clock_reads s)))],
      s\<lparr>clock_reads := Suc (clock_reads s)\<rparr>)"
  by (simp add: token_not_configured_def timestamp_effect)

lemma except_handler_effect:
  "except_handler w e s =
     (JObj [(''status'', JStr ''error''),
            (''message'', JStr (''Error: '' @ str_exc w e)),
            (''timestamp'', JStr (isoformat w (clock_reads s)))],
      s\<lparr>stdout := stdout s @ [''Error calling Vercel API: '' @ str_exc w e],
        clock_reads := Suc (clock_reads s)\<rparr>)"
  by (simp add: except_handler_def timestamp_effect py_print_def)

lemma api_get_state:
  "outbound (snd (api_get w ep ps s)) =
     outbound s @ [\<lparr>url = base_url @ ep, headers = api_headers w s, params = ps\<rparr>]"
  "clock_reads (snd (api_get w ep ps s)) = Suc (clock_reads s)"
  "VERCEL_TOKEN (snd (api_get w ep ps s)) = VERCEL_TOKEN s"
  by (simp_all add: api_get_def do_get_def process_response_def except_handler_effect
      timestamp_effect split: sum.splits)

lemma api_get_completed:
  assumes "requests_get w (length (outbound s))
             \<lparr>url = base_url @ ep, headers = api_headers w s, params = ps\<rparr> = Inr r"
  shows "fst (api_get w ep ps s) =
     (if 200 \<le> status_code r \<and> status_code r < 300 then
        (case resp_json r of
           Inr j \<Rightarrow> JObj [(''status'', JStr ''success''), (''data'', j),
                          (''timestamp'', JStr (isoformat w (clock_reads s)))]
         | Inl e \<Rightarrow> JObj [(''status'', JStr ''error''),
                          (''message'', JStr (''Error: '' @ str_exc w e)),
                          (''timestamp'', JStr (isoformat w (clock_reads s)))])
      else JObj [(''status'', JStr ''error''),
                 (''message'', JStr (''API request failed with status code ''
                                      @ str_int (status_code r))),
                 (''error'', JStr (resp_text r)),
                 (''timestamp'', JStr (isoformat w (clock_reads s)))])"
  using assms
  by (simp add: api_get_def do_get_def process_response_def except_handler_effect
      timestamp_effect split: sum.splits)


subsection \<open>The branch list of run_vercel_command\<close>

text \<open>
  Only a list has the string \<open>list\<close> as its first item, so the branch \<open>list\<close> of
  \<open>run_vercel_command\<close> always finds a list.
\<close>

lemma subscript_list:
  assumes "subscript v 0 = Inr (JStr ''list'')"
  shows "\<exists>xs. v = JArr xs"
  using assms by (cases v) (auto split: if_splits)

lemma run_vercel_command_list:
  assumes "subscript v 0 = Inr (JStr ''list'')"
  shows "\<exists>xs. v = JArr xs \<and>
           run_vercel_command w v s = api_get w ''/v6/deployments'' (list_params xs) s"
proof -
  from subscript_list [OF assms] obtain xs where v: "v = JArr xs" by blast
  with assms show ?thesis by (simp add: run_vercel_command_def split: if_splits)
qed

subsection \<open>The tools without a credential\<close>



subsection \<open>set_vercel_token\<close>


text \<open>The whole effect of \<open>set_vercel_token\<close> on a string.\<close>

lemma set_vercel_token_str:
  "set_vercel_token w (JStr t) s =
     (Inr (JObj [(''status'', JStr ''success''),
                 (''message'', JStr ''Vercel token updated successfully''),
                 (''timestamp'', JStr (isoformat w (Suc (clock_reads s))))]),
      s\<lparr>VERCEL_TOKEN := JStr t,
        stdout := stdout s @
          [''Tool call: set_vercel_token at '' @ str_datetime w (clock_reads s),
           ''Vercel token updated: '' @
             (if 8 < length t then take 4 t @ ''****'' @ drop (length t - 4) t else ''****'')],
        clock_reads := Suc (Suc (clock_reads s))\<rparr>)"
  by (simp add: set_vercel_token_def print_now_effect timestamp_effect py_print_def Let_def)




subsection \<open>The request of each tool\<close>

lemma api_headers_print_now [simp]: "api_headers w (print_now w line s) = api_headers w s"
  by (simp add: api_headers_def print_now_effect)

lemma run_vercel_command_ls:
  "run_vercel_command w (JArr [JStr ''ls'']) s = api_get w ''/v9/projects'' [] s"
  by (simp add: run_vercel_command_def)


subsection \<open>set_vercel_token and the calls that follow it\<close>




subsection \<open>do_POST on a tool path\<close>

text \<open>The state after the two lines that \<open>do_POST\<close> prints first.\<close>

lemma do_POST_tools:
  assumes "path req = ''/tools/'' @ name"
      and "read_post_data w req = Inr post_data"
  shows "do_POST w req s =
     (case parse_params w post_data of
        None \<Rightarrow>
          (Sent (handle_error w 400 ''Invalid JSON in request body''),
           py_print (''Calling tool: '' @ name)
             (py_print (''Received POST request: '' @ path req) s))
      | Some ps \<Rightarrow>
          (case map_of module_callables name of
             None \<Rightarrow>
               (Sent (handle_error w 404
                        (''Tool '' @ [CHR 0x27] @ name @ [CHR 0x27] @ '' not found'')),
                py_print (''Calling tool: '' @ name)
                  (py_print (''Received POST request: '' @ path req) s))
           | Some tool_func \<Rightarrow>
               call_tool w name tool_func ps
                 (py_print (''Calling tool: '' @ name)
                    (py_print (''Received POST request: '' @ path req) s))))"
  using assms by (simp add: do_POST_def startswith_def Let_def split: option.splits)

lemma status_handle_error [simp]: "status (handle_error w code message) = code"
  by (simp add: handle_error_def Let_def)

lemma status_send_json_response [simp]: "status (fst (send_json_response w data s)) = 200"
  by (simp add: send_json_response_def Let_def)


text \<open>
  Over HTTP: \<open>POST /tools/set_vercel_token\<close> with the body
  \<open>{"token": "abcd1234efgh"}\<close> is answered with 200 and leaves the new token in the
  global.
\<close>

lemma set_vercel_token_over_http:
  "(case fst (do_POST (stub_world answer_200)
                \<lparr>path = ''/tools/set_vercel_token'', content_length = Some ''25'',
                 rfile = body_token\<rparr>
                (stub_state '''')) of
      Sent r \<Rightarrow> status r = 200
    | Propagated e \<Rightarrow> False
    | Hung \<Rightarrow> False)
   \<and> VERCEL_TOKEN (snd (do_POST (stub_world answer_200)
                          \<lparr>path = ''/tools/set_vercel_token'', content_length = Some ''25'',
                           rfile = body_token\<rparr>
                          (stub_state ''''))) = JStr ''abcd1234efgh''"
proof -
  have rd: "read_post_data (stub_world answer_200)
          \<lparr>path = ''/tools/set_vercel_token'', content_length = Some ''25'',
           rfile = body_token\<rparr> = Inr body_token"
    by (simp add: read_post_data_def stub_world_def body_token_def)
  have pp: "parse_params (stub_world answer_200) body_token
              = Some (JObj [(''token'', JStr ''abcd1234efgh'')])"
    by (simp add: parse_params_def stub_world_def body_token_def body_foo_def)
  have f: "map_of module_callables ''set_vercel_token'' = Some F_set_vercel_token"
    by (simp add: module_callables_def)
  have call: "call_function (stub_world answer_200) F_set_vercel_token
                (JObj [(''token'', JStr ''abcd1234efgh'')]) s
              = (case set_vercel_token (stub_world answer_200) (JStr ''abcd1234efgh'') s of
                   (Inl e, s1) \<Rightarrow> (Raised e, s1)
                 | (Inr v, s1) \<Rightarrow> (Returned v, s1))" for s
    by (simp add: call_function_def bind_kwargs_def)
  from do_POST_tools [OF _ rd, where name = "''set_vercel_token''", of "stub_state ''''"] f pp
  show ?thesis
    by (simp add: call_tool_def call set_vercel_token_str
        send_json_response_def py_print_def Let_def)
qed

subsection \<open>A name that is bound to no callable\<close>




subsection \<open>Keyword arguments that do not fit the signature\<close>










subsection \<open>A required parameter without a key\<close>

text \<open>Every registered tool is a function of the module.\<close>

lemma known_tools_are_functions:
  "\<forall>name \<in> set known_tools. \<exists>f ps. map_of module_callables name = Some f \<and> parameters f = Some ps"
  by (simp add: known_tools_def module_callables_def)



subsection \<open>The lookup of the tool\<close>



subsection \<open>The headers of the responses\<close>

lemma sent_headers_send_json_response:
  "map fst (sent_headers (fst (send_json_response w data s)))
     = [''Content-type'', ''Access-Control-Allow-Origin'', ''Connection'', ''Content-Length'']"
  by (simp add: send_json_response_def Let_def)

lemma sent_headers_handle_error:
  "map fst (sent_headers (handle_error w code message))
     = [''Content-type'', ''Connection'', ''Content-Length'']"
  by (simp add: handle_error_def Let_def)

text \<open>
  Claim C8, at the inputs where the code departs from it. A response written by
  \<open>_send_json_response\<close> has both headers, as \<open>GET /\<close> shows. A response written
  by \<open>_handle_error\<close> (every 400, 404 and 500) has \<open>Content-Length\<close> and no
  \<open>Access-Control-Allow-Origin\<close>: so the 404 for \<open>POST /tools/does_not_exist\<close>. The
  response to \<open>OPTIONS\<close> has \<open>Access-Control-Allow-Origin\<close> and no
  \<open>Content-Length\<close>.
\<close>

theorem error_and_preflight_responses_miss_a_header:
  "(case fst (do_POST (stub_world answer_200)
                \<lparr>path = ''/tools/does_not_exist'', content_length = None, rfile = []\<rparr>
                (stub_state ''tok'')) of
      Sent r \<Rightarrow> status r = 404
               \<and> map fst (sent_headers r) = [''Content-type'', ''Connection'', ''Content-Length'']
    | Propagated e \<Rightarrow> False
    | Hung \<Rightarrow> False)
   \<and> sent_headers do_OPTIONS =
       [(''Access-Control-Allow-Origin'', ''*''),
        (''Access-Control-Allow-Methods'', ''GET, POST, OPTIONS''),
        (''Access-Control-Allow-Headers'', ''Content-Type'')]
   \<and> map fst (sent_headers (fst (do_GET (stub_world answer_200)
                                     \<lparr>path = ''/'', content_length = None, rfile = []\<rparr>
                                     (stub_state ''tok''))))
       = [''Content-type'', ''Access-Control-Allow-Origin'', ''Connection'', ''Content-Length'']"
proof -
  have "read_post_data (stub_world answer_200)
          \<lparr>path = ''/tools/does_not_exist'', content_length = None, rfile = []\<rparr> = Inr []"
    by (simp add: read_post_data_def stub_world_def)
  from do_POST_tools [OF _ this, where name = "''does_not_exist''", of "stub_state ''tok''"]
  have "fst (do_POST (stub_world answer_200)
                \<lparr>path = ''/tools/does_not_exist'', content_length = None, rfile = []\<rparr>
                (stub_state ''tok''))
        = Sent (handle_error (stub_world answer_200) 404
                  (''Tool '' @ [CHR 0x27] @ ''does_not_exist'' @ [CHR 0x27] @ '' not found''))"
    by (simp add: parse_params_def module_callables_def)
  moreover have "map fst (sent_headers (fst (do_GET (stub_world answer_200)
                                     \<lparr>path = ''/'', content_length = None, rfile = []\<rparr>
                                     (stub_state ''tok''))))
       = [''Content-type'', ''Access-Control-Allow-Origin'', ''Connection'', ''Content-Length'']"
    by (simp add: do_GET_def Let_def sent_headers_send_json_response)
  ultimately show ?thesis
    by (simp add: sent_headers_handle_error do_OPTIONS_def)
qed

subsection \<open>Which calls reach the upstream\<close>

lemma api_get_envelope:
  assumes "requests_get w (length (outbound s))
             \<lparr>url = base_url @ ep, headers = api_headers w s, params = ps\<rparr> = Inr r"
  shows "fst (api_get w ep ps s) = envelope_for w r (isoformat w (clock_reads s))"
  using api_get_completed [OF assms] by (simp add: envelope_for_def)

lemma api_get_completed_call:
  assumes "api_get w ep ps s = (v, s')"
      and "outbound s' = outbound s @ [q]"
      and "requests_get w (length (outbound s)) q = Inr r"
  shows "v = envelope_for w r (isoformat w (clock_reads s' - 1))"
proof -
  from assms(1) have v: "v = fst (api_get w ep ps s)" and s': "s' = snd (api_get w ep ps s)"
    by simp_all
  from assms(2) have q: "q = \<lparr>url = base_url @ ep, headers = api_headers w s, params = ps\<rparr>"
    by (simp add: s' api_get_state)
  have "clock_reads s' - 1 = clock_reads s"
    by (simp add: s' api_get_state)
  with api_get_envelope [OF assms(3) [unfolded q]] show ?thesis
    by (simp add: v)
qed

lemma blocks_outbound:
  "outbound (snd (token_not_configured w s)) = outbound s"
  "outbound (snd (except_handler w e s)) = outbound s"
  "outbound (snd (unsupported_command w a s)) = outbound s"
  by (simp_all add: token_not_configured_effect except_handler_effect unsupported_command_def
      timestamp_effect split: sum.splits)

text \<open>\<open>run_vercel_command\<close> either is one request to the upstream or sends nothing.\<close>

lemma run_vercel_command_shape:
  "(\<exists>ep ps. run_vercel_command w a s = api_get w ep ps s)
   \<or> outbound (snd (run_vercel_command w a s)) = outbound s"
  by (auto simp: run_vercel_command_def blocks_outbound split: sum.splits json.splits)

text \<open>A tool that needs the credential either answers that it is missing or is one
  request to the upstream.\<close>

lemma tool_shape:
  "\<exists>s1. outbound s1 = outbound s \<and> VERCEL_TOKEN s1 = VERCEL_TOKEN s \<and>
        clock_reads s1 = Suc (clock_reads s) \<and>
        (list_projects w s = token_not_configured w s1
         \<or> (\<exists>ep ps. list_projects w s = api_get w ep ps s1))"
  "\<exists>s1. outbound s1 = outbound s \<and> VERCEL_TOKEN s1 = VERCEL_TOKEN s \<and>
        clock_reads s1 = Suc (clock_reads s) \<and>
        (list_deployments w project_id limit s = token_not_configured w s1
         \<or> (\<exists>ep ps. list_deployments w project_id limit s = api_get w ep ps s1))"
  "\<exists>s1. outbound s1 = outbound s \<and> VERCEL_TOKEN s1 = VERCEL_TOKEN s \<and>
        clock_reads s1 = Suc (clock_reads s) \<and>
        (get_project_info w project_id s = token_not_configured w s1
         \<or> (\<exists>ep ps. get_project_info w project_id s = api_get w ep ps s1))"
  "\<exists>s1. outbound s1 = outbound s \<and> VERCEL_TOKEN s1 = VERCEL_TOKEN s \<and>
        clock_reads s1 = Suc (clock_reads s) \<and>
        (list_project_domains w project_id s = token_not_configured w s1
         \<or> (\<exists>ep ps. list_project_domains w project_id s = api_get w ep ps s1))"
  "\<exists>s1. outbound s1 = outbound s \<and> VERCEL_TOKEN s1 = VERCEL_TOKEN s \<and>
        clock_reads s1 = Suc (clock_reads s) \<and>
        (list_environment_variables w project_id s = token_not_configured w s1
         \<or> (\<exists>ep ps. list_environment_variables w project_id s = api_get w ep ps s1))"
  "\<exists>s1. outbound s1 = outbound s \<and> VERCEL_TOKEN s1 = VERCEL_TOKEN s \<and>
        clock_reads s1 = Suc (clock_reads s) \<and>
        (get_user_info w s = token_not_configured w s1
         \<or> (\<exists>ep ps. get_user_info w s = api_get w ep ps s1))"
  "\<exists>s1. outbound s1 = outbound s \<and> VERCEL_TOKEN s1 = VERCEL_TOKEN s \<and>
        clock_reads s1 = Suc (clock_reads s) \<and>
        (list_deployment_aliases w deployment_id s = token_not_configured w s1
         \<or> (\<exists>ep ps. list_deployment_aliases w deployment_id s = api_get w ep ps s1))"
proof -
  have p: "outbound (print_now w line s) = outbound s
         \<and> VERCEL_TOKEN (print_now w line s) = VERCEL_TOKEN s
         \<and> clock_reads (print_now w line s) = Suc (clock_reads s)" for line
    by (simp add: print_now_effect)
  show "\<exists>s1. outbound s1 = outbound s \<and> VERCEL_TOKEN s1 = VERCEL_TOKEN s \<and>
        clock_reads s1 = Suc (clock_reads s) \<and>
        (list_projects w s = token_not_configured w s1
         \<or> (\<exists>ep ps. list_projects w s = api_get w ep ps s1))"
    using p [of "''Tool call: list_projects at ''"]
    by (auto simp: list_projects_def run_vercel_command_ls Let_def)
  show "\<exists>s1. outbound s1 = outbound s \<and> VERCEL_TOKEN s1 = VERCEL_TOKEN s \<and>
        clock_reads s1 = Suc (clock_reads s) \<and>
        (list_deployments w project_id limit s = token_not_configured w s1
         \<or> (\<exists>ep ps. list_deployments w project_id limit s = api_get w ep ps s1))"
    using p [of "''Tool call: list_deployments for project_id: '' @ fmt w project_id @ '' at ''"]
    unfolding list_deployments_def Let_def by (metis (full_types))
  show "\<exists>s1. outbound s1 = outbound s \<and> VERCEL_TOKEN s1 = VERCEL_TOKEN s \<and>
        clock_reads s1 = Suc (clock_reads s) \<and>
        (get_project_info w project_id s = token_not_configured w s1
         \<or> (\<exists>ep ps. get_project_info w project_id s = api_get w ep ps s1))"
    using p [of "''Tool call: get_project_info at ''"]
    unfolding get_project_info_def Let_def by (metis (full_types))
  show "\<exists>s1. outbound s1 = outbound s \<and> VERCEL_TOKEN s1 = VERCEL_TOKEN s \<and>
        clock_reads s1 = Suc (clock_reads s) \<and>
        (list_project_domains w project_id s = token_not_configured w s1
         \<or> (\<exists>ep ps. list_project_domains w project_id s = api_get w ep ps s1))"
    using p [of "''Tool call: list_project_domains at ''"]
    unfolding list_project_domains_def Let_def by (metis (full_types))
  show "\<exists>s1. outbound s1 = outbound s \<and> VERCEL_TOKEN s1 = VERCEL_TOKEN s \<and>
        clock_reads s1 = Suc (clock_reads s) \<and>
        (list_environment_variables w project_id s = token_not_configured w s1
         \<or> (\<exists>ep ps. list_environment_variables w project_id s = api_get w ep ps s1))"
    using p [of "''Tool call: list_environment_variables at ''"]
    unfolding list_environment_variables_def Let_def by (metis (full_types))
  show "\<exists>s1. outbound s1 = outbound s \<and> VERCEL_TOKEN s1 = VERCEL_TOKEN s \<and>
        clock_reads s1 = Suc (clock_reads s) \<and>
        (get_user_info w s = token_not_configured w s1
         \<or> (\<exists>ep ps. get_user_info w s = api_get w ep ps s1))"
    using p [of "''Tool call: get_user_info at ''"]
    unfolding get_user_info_def Let_def by (metis (full_types))
  show "\<exists>s1. outbound s1 = outbound s \<and> VERCEL_TOKEN s1 = VERCEL_TOKEN s \<and>
        clock_reads s1 = Suc (clock_reads s) \<and>
        (list_deployment_aliases w deployment_id s = token_not_configured w s1
         \<or> (\<exists>ep ps. list_deployment_aliases w deployment_id s = api_get w ep ps s1))"
    using p [of "''Tool call: list_deployment_aliases at ''"]
    unfolding list_deployment_aliases_def Let_def by (metis (full_types))
qed

lemma py_print_outbound [simp]: "outbound (py_print line s) = outbound s"
  by (simp add: py_print_def)

lemma fold_inspect_outbound:
  "fold (inspect w) bs (tools, s) = (found, s3) \<Longrightarrow> outbound s3 = outbound s"
proof (induction bs arbitrary: tools s)
  case Nil
  then show ?case by simp
next
  case (Cons b bs)
  obtain tools' s1 where step: "inspect w b (tools, s) = (tools', s1)"
    by (cases "inspect w b (tools, s)")
  then have "outbound s1 = outbound s"
    by (auto simp: inspect_def Let_def split: prod.splits if_splits)
  with Cons.IH [of tools' s1] Cons.prems step show ?case by simp
qed

lemma fold_print_outbound:
  "outbound (fold (\<lambda>x. py_print (line x)) xs s) = outbound s"
  by (induction xs arbitrary: s) simp_all

lemma get_registered_tools_outbound:
  "outbound (snd (get_registered_tools w s)) = outbound s"
  by (auto simp: get_registered_tools_def Let_def fold_print_outbound
      split: prod.splits if_splits dest!: fold_inspect_outbound)

lemma set_vercel_token_outbound:
  "outbound (snd (set_vercel_token w token s)) = outbound s"
  by (simp add: set_vercel_token_def print_now_effect timestamp_effect py_print_def Let_def
      split: sum.splits)

lemma check_server_status_outbound:
  "outbound (snd (check_server_status w s)) = outbound s"
  by (simp add: check_server_status_def print_now_effect timestamp_effect Let_def)

lemma returned_eq: "returned r = (Returned (fst r), snd r)"
  by (simp add: returned_def split: prod.splits)

text \<open>
  Every call of a callable of the module either returns what one request to the upstream
  gave, or sends nothing.
\<close>

lemma shape_of_tool:
  assumes "\<exists>s1. outbound s1 = outbound s \<and> VERCEL_TOKEN s1 = VERCEL_TOKEN s \<and>
             clock_reads s1 = Suc (clock_reads s) \<and>
             (R = token_not_configured w s1 \<or> (\<exists>ep ps. R = api_get w ep ps s1))"
  shows "(\<exists>ep ps s1. outbound s1 = outbound s \<and>
            Returned (fst R) = Returned (fst (api_get w ep ps s1)) \<and>
            snd R = snd (api_get w ep ps s1))
         \<or> outbound (snd R) = outbound s"
proof -
  from assms obtain s1 where s1: "outbound s1 = outbound s"
    and R: "R = token_not_configured w s1 \<or> (\<exists>ep ps. R = api_get w ep ps s1)"
    by blast
  from R show ?thesis
  proof
    assume "R = token_not_configured w s1"
    with s1 have "outbound (snd R) = outbound s" by (simp add: blocks_outbound)
    then show ?thesis ..
  next
    assume "\<exists>ep ps. R = api_get w ep ps s1"
    with s1 show ?thesis by blast
  qed
qed

lemma run_body_shape:
  assumes "run_body w f a kwargs s = (out, s')"
  shows "(\<exists>ep ps s1. outbound s1 = outbound s \<and>
            out = Returned (fst (api_get w ep ps s1)) \<and> s' = snd (api_get w ep ps s1))
         \<or> outbound s' = outbound s"
proof (cases f)
  case F_get_registered_tools
  with assms get_registered_tools_outbound [of w s] show ?thesis
    by (auto split: prod.splits)
next
  case F_run_vercel_command
  with assms have "out = Returned (fst (run_vercel_command w (a ''command_args'') s))"
    and "s' = snd (run_vercel_command w (a ''command_args'') s)"
    by (simp_all add: returned_eq)
  with run_vercel_command_shape [of w "a ''command_args''" s] show ?thesis
    by metis
next
  case F_list_projects
  with assms have "out = Returned (fst (list_projects w s))" "s' = snd (list_projects w s)"
    by (simp_all add: returned_eq)
  with shape_of_tool [OF tool_shape(1)] show ?thesis by simp
next
  case F_list_deployments
  with assms have "out = Returned (fst (list_deployments w (a ''project_id'') (a ''limit'') s))"
    "s' = snd (list_deployments w (a ''project_id'') (a ''limit'') s)"
    by (simp_all add: returned_eq)
  with shape_of_tool [OF tool_shape(2)] show ?thesis by simp
next
  case F_get_project_info
  with assms have "out = Returned (fst (get_project_info w (a ''project_id'') s))"
    "s' = snd (get_project_info w (a ''project_id'') s)"
    by (simp_all add: returned_eq)
  with shape_of_tool [OF tool_shape(3)] show ?thesis by simp
next
  case F_set_vercel_token
  with assms set_vercel_token_outbound [of w "a ''token''" s] show ?thesis
    by (auto split: prod.splits sum.splits)
next
  case F_check_server_status
  with assms check_server_status_outbound [of w s] show ?thesis
    by (auto simp: returned_eq)
next
  case F_list_project_domains
  with assms have "out = Returned (fst (list_project_domains w (a ''project_id'') s))"
    "s' = snd (list_project_domains w (a ''project_id'') s)"
    by (simp_all add: returned_eq)
  with shape_of_tool [OF tool_shape(4)] show ?thesis by simp
next
  case F_list_environment_variables
  with assms have "out = Returned (fst (list_environment_variables w (a ''project_id'') s))"
    "s' = snd (list_environment_variables w (a ''project_id'') s)"
    by (simp_all add: returned_eq)
  with shape_of_tool [OF tool_shape(5)] show ?thesis by simp
next
  case F_get_user_info
  with assms have "out = Returned (fst (get_user_info w s))" "s' = snd (get_user_info w s)"
    by (simp_all add: returned_eq)
  with shape_of_tool [OF tool_shape(6)] show ?thesis by simp
next
  case F_list_deployment_aliases
  with assms have "out = Returned (fst (list_deployment_aliases w (a ''deployment_id'') s))"
    "s' = snd (list_deployment_aliases w (a ''deployment_id'') s)"
    by (simp_all add: returned_eq)
  with shape_of_tool [OF tool_shape(7)] show ?thesis by simp
qed (use assms in auto)

lemma call_function_shape:
  assumes "call_function w f kwargs s = (out, s')"
  shows "(\<exists>ep ps s1. outbound s1 = outbound s \<and>
            out = Returned (fst (api_get w ep ps s1)) \<and> s' = snd (api_get w ep ps s1))
         \<or> outbound s' = outbound s"
proof (cases "parameters f")
  case None
  with assms show ?thesis by (auto simp: call_function_def)
next
  case (Some ps)
  show ?thesis
  proof (cases "bind_kwargs ps kwargs")
    case (Inl e)
    with Some assms show ?thesis by (auto simp: call_function_def)
  next
    case (Inr a)
    with Some assms have "run_body w f a kwargs s = (out, s')"
      by (simp add: call_function_def)
    then show ?thesis by (rule run_body_shape)
  qed
qed

subsection \<open>The envelope of a call that completes\<close>

text \<open>
  Claim C1, as the code has it. The upstream answers \<open>get_user_info\<close> with status
  200 and a body that is not JSON. The call completed, \<open>response.json()\<close> raises, the
  \<open>except\<close> clause catches it, and the envelope is an error, not a success.
\<close>

theorem completed_call_with_bad_body_is_an_error:
  "requests_get (stub_world answer_200_not_json) 0
     \<lparr>url = ''https://api.vercel.com/v2/user'',
      headers = [(''Authorization'', ''Bearer tok''), (''Content-Type'', ''application/json'')],
      params = []\<rparr>
     = Inr \<lparr>status_code = 200, resp_text = ''OK'',
            resp_json = Inl (ValueError ''Expecting value'')\<rparr>
   \<and> outbound (snd (get_user_info (stub_world answer_200_not_json) (stub_state ''tok'')))
     = [\<lparr>url = ''https://api.vercel.com/v2/user'',
         headers = [(''Authorization'', ''Bearer tok''), (''Content-Type'', ''application/json'')],
         params = []\<rparr>]
   \<and> fst (get_user_info (stub_world answer_200_not_json) (stub_state ''tok''))
     = JObj [(''status'', JStr ''error''),
             (''message'', JStr ''Error: <exception>''),
             (''timestamp'', JStr ''2025-01-01T00:00:00'')]"
  by (simp add: get_user_info_def print_now_effect api_get_def do_get_def
      process_response_def except_handler_effect api_headers_def base_url_def
      stub_world_def stub_state_def answer_200_not_json_def Let_def)

text \<open>
  Claim C1, amended. Take any call of a callable of the module, with any arguments, that
  sends a request to the upstream and gets a response. If the status code is in
  [200,300) and the body parses as JSON, the call returns exactly the success envelope
  with the parsed body as \<open>data\<close>; if the status code is in [200,300) and
  \<open>response.json()\<close> raises, it returns the error envelope of the \<open>except\<close>
  clause; if the status code is outside [200,300), it returns exactly the error envelope
  whose message ends with the status code and whose \<open>error\<close> is the body text. In all
  three the timestamp is the last reading of the clock.
\<close>

theorem completed_call_envelope:
  assumes "call_function w f kwargs s = (out, s')"
      and "outbound s' = outbound s @ [q]"
      and "requests_get w (length (outbound s)) q = Inr r"
  shows "(200 \<le> status_code r \<and> status_code r < 300 \<longrightarrow>
            (\<forall>j. resp_json r = Inr j \<longrightarrow>
               out = Returned (JObj [(''status'', JStr ''success''),
                                     (''data'', j),
                                     (''timestamp'', JStr (isoformat w (clock_reads s' - 1)))]))
          \<and> (\<forall>e. resp_json r = Inl e \<longrightarrow>
               out = Returned (JObj [(''status'', JStr ''error''),
                                     (''message'', JStr (''Error: '' @ str_exc w e)),
                                     (''timestamp'', JStr (isoformat w (clock_reads s' - 1)))])))
       \<and> (\<not> (200 \<le> status_code r \<and> status_code r < 300) \<longrightarrow>
            out = Returned (JObj [(''status'', JStr ''error''),
                                  (''message'', JStr (''API request failed with status code ''
                                                       @ str_int (status_code r))),
                                  (''error'', JStr (resp_text r)),
                                  (''timestamp'', JStr (isoformat w (clock_reads s' - 1)))]))"
proof -
  from call_function_shape [OF assms(1)] assms(2)
  obtain ep ps s1 where s1: "outbound s1 = outbound s"
    and out: "out = Returned (fst (api_get w ep ps s1))"
    and s': "s' = snd (api_get w ep ps s1)"
    by auto
  have "api_get w ep ps s1 = (fst (api_get w ep ps s1), s')"
    by (simp add: s')
  from api_get_completed_call [OF this] assms(2,3) s1
  have "fst (api_get w ep ps s1) = envelope_for w r (isoformat w (clock_reads s' - 1))"
    by simp
  then show ?thesis
    by (simp add: out envelope_for_def)
qed

text \<open>\<open>list_deployments\<close> without arguments, answered with 404 and the body
  \<open>not found\<close>.\<close>

theorem completed_call_envelope_witness:
  "\<exists>out s' q r.
     call_function (stub_world answer_404) F_list_deployments (JObj []) (stub_state ''tok'')
       = (out, s')
   \<and> outbound s' = outbound (stub_state ''tok'') @ [q]
   \<and> requests_get (stub_world answer_404) (length (outbound (stub_state ''tok''))) q = Inr r
   \<and> status_code r = 404
   \<and> out = Returned (JObj [(''status'', JStr ''error''),
                           (''message'', JStr (''API request failed with status code ''
                                                @ str_int 404)),
                           (''error'', JStr ''not found''),
                           (''timestamp'', JStr (isoformat (stub_world answer_404)
                                                   (clock_reads s' - 1)))])"
proof -
  obtain out s' where run:
    "call_function (stub_world answer_404) F_list_deployments (JObj []) (stub_state ''tok'')
       = (out, s')"
    by (cases "call_function (stub_world answer_404) F_list_deployments (JObj [])
                 (stub_state ''tok'')")
  define q where "q = \<lparr>url = ''https://api.vercel.com/v6/deployments'',
      headers = [(''Authorization'', ''Bearer tok''), (''Content-Type'', ''application/json'')],
      params = [(''limit'', JInt 5)]\<rparr>"
  define r where "r = \<lparr>status_code = 404, resp_text = ''not found'',
                        resp_json = Inl (ValueError ''Expecting value'')\<rparr>"
  have "s' = snd (call_function (stub_world answer_404) F_list_deployments (JObj [])
                    (stub_state ''tok''))"
    by (simp add: run)
  then have sent: "outbound s' = outbound (stub_state ''tok'') @ [q]"
    by (simp add: call_function_def bind_kwargs_def returned_eq list_deployments_def
        print_now_effect api_get_state api_headers_def base_url_def stub_state_def q_def
        Let_def)
  have answer: "requests_get (stub_world answer_404) (length (outbound (stub_state ''tok''))) q
                  = Inr r"
    by (simp add: stub_world_def answer_404_def r_def)
  from completed_call_envelope [OF run sent answer]
  have "out = Returned (JObj [(''status'', JStr ''error''),
                           (''message'', JStr (''API request failed with status code ''
                                                @ str_int 404)),
                           (''error'', JStr ''not found''),
                           (''timestamp'', JStr (isoformat (stub_world answer_404)
                                                   (clock_reads s' - 1)))])"
    by (simp add: r_def)
  moreover have "status_code r = 404" by (simp add: r_def)
  ultimately show ?thesis using run sent answer by blast
qed

subsection \<open>The envelope of every registered tool\<close>

lemma api_get_fields:
  "field (fst (api_get w ep ps s)) ''timestamp''
     = Some (JStr (isoformat w (clock_reads (snd (api_get w ep ps s)) - 1)))
   \<and> (field (fst (api_get w ep ps s)) ''status'' = Some (JStr ''success'')
        \<and> field (fst (api_get w ep ps s)) ''data'' \<noteq> None
      \<or> field (fst (api_get w ep ps s)) ''status'' = Some (JStr ''error''))"
  by (simp add: api_get_def do_get_def process_response_def except_handler_effect
      timestamp_effect field_def split: sum.splits)

lemma token_not_configured_fields:
  "field (fst (token_not_configured w s)) ''timestamp''
     = Some (JStr (isoformat w (clock_reads (snd (token_not_configured w s)) - 1)))
   \<and> field (fst (token_not_configured w s)) ''status'' = Some (JStr ''error'')"
  by (simp add: token_not_configured_effect field_def)

lemma fields_of_tool:
  assumes "\<exists>s1. outbound s1 = outbound s \<and> VERCEL_TOKEN s1 = VERCEL_TOKEN s \<and>
             clock_reads s1 = Suc (clock_reads s) \<and>
             (R = token_not_configured w s1 \<or> (\<exists>ep ps. R = api_get w ep ps s1))"
  shows "field (fst R) ''timestamp'' = Some (JStr (isoformat w (clock_reads (snd R) - 1)))
       \<and> (field (fst R) ''status'' = Some (JStr ''success'') \<and> field (fst R) ''data'' \<noteq> None
          \<or> field (fst R) ''status'' = Some (JStr ''error''))"
proof -
  from assms obtain s1 where
    R: "R = token_not_configured w s1 \<or> (\<exists>ep ps. R = api_get w ep ps s1)"
    by blast
  from R show ?thesis
  proof
    assume "R = token_not_configured w s1"
    with token_not_configured_fields [of w s1] show ?thesis by simp
  next
    assume "\<exists>ep ps. R = api_get w ep ps s1"
    then obtain ep ps where "R = api_get w ep ps s1" by blast
    with api_get_fields [of w ep ps s1] show ?thesis by simp
  qed
qed

lemma set_vercel_token_fields:
  assumes "set_vercel_token w token s = (Inr v, s')"
  shows "field v ''timestamp'' = Some (JStr (isoformat w (clock_reads s' - 1)))
       \<and> field v ''status'' = Some (JStr ''success'')
       \<and> field v ''data'' = None
       \<and> field v ''message'' = Some (JStr ''Vercel token updated successfully'')"
  using assms
  by (auto simp: set_vercel_token_def print_now_effect timestamp_effect py_print_def
      field_def Let_def split: sum.splits)

lemma check_server_status_fields:
  "field (fst (check_server_status w s)) ''timestamp''
     = Some (JStr (isoformat w (clock_reads (snd (check_server_status w s)) - 1)))
   \<and> field (fst (check_server_status w s)) ''status'' = Some (JStr ''online'')"
  by (simp add: check_server_status_def print_now_effect timestamp_effect field_def Let_def)

lemma known_tool_callables:
  assumes "name \<in> set known_tools" and "map_of module_callables name = Some f"
  shows "f \<in> {F_list_projects, F_list_deployments, F_get_project_info,
              F_check_server_status, F_set_vercel_token, F_list_project_domains,
              F_list_environment_variables, F_get_user_info, F_list_deployment_aliases}"
  using assms by (auto simp: known_tools_def module_callables_def)

lemma call_function_returned:
  assumes "call_function w f kwargs s = (Returned v, s')" and "parameters f = Some ps"
  shows "\<exists>a. run_body w f a kwargs s = (Returned v, s')"
  using assms by (auto simp: call_function_def split: sum.splits)

lemma run_body_set_vercel_token:
  assumes "run_body w F_set_vercel_token a kwargs s = (Returned v, s')"
  shows "set_vercel_token w (a ''token'') s = (Inr v, s')"
proof (cases "set_vercel_token w (a ''token'') s")
  case (Pair x y)
  with assms show ?thesis by (cases x) auto
qed

text \<open>
  Claim C4, as the code has it. \<open>check_server_status\<close> is a registered tool, and the
  status of its envelope is \<open>online\<close>, which is neither \<open>success\<close> nor
  \<open>error\<close>.
\<close>

theorem check_server_status_is_online:
  "''check_server_status'' \<in> set known_tools
   \<and> map_of module_callables ''check_server_status'' = Some F_check_server_status
   \<and> field (fst (check_server_status (stub_world answer_200) (stub_state ''tok''))) ''status''
       = Some (JStr ''online'')"
  by (simp add: known_tools_def module_callables_def check_server_status_fields)

text \<open>
  Claim C4, amended. Every call of a registered tool that returns, with any arguments,
  returns one dictionary with a \<open>timestamp\<close>, which is the last reading of the clock.
  Its \<open>status\<close> is \<open>online\<close> for \<open>check_server_status\<close> and \<open>success\<close> or
  \<open>error\<close> for every other tool. A \<open>success\<close> has a \<open>data\<close> field, except the
  one of \<open>set_vercel_token\<close>, which has a \<open>message\<close> and no \<open>data\<close>.
\<close>

theorem registered_tool_envelope:
  assumes "name \<in> set known_tools"
      and "map_of module_callables name = Some f"
      and "call_function w f kwargs s = (Returned v, s')"
  shows "field v ''timestamp'' = Some (JStr (isoformat w (clock_reads s' - 1)))
       \<and> (f = F_check_server_status \<longrightarrow> field v ''status'' = Some (JStr ''online''))
       \<and> (f \<noteq> F_check_server_status \<longrightarrow>
            field v ''status'' = Some (JStr ''success'')
          \<or> field v ''status'' = Some (JStr ''error''))
       \<and> (f \<noteq> F_check_server_status \<and> f \<noteq> F_set_vercel_token
            \<and> field v ''status'' = Some (JStr ''success'')
          \<longrightarrow> field v ''data'' \<noteq> None)
       \<and> (f = F_set_vercel_token \<longrightarrow>
            field v ''status'' = Some (JStr ''success'') \<and> field v ''data'' = None
          \<and> field v ''message'' = Some (JStr ''Vercel token updated successfully''))"
proof -
  from known_tool_callables [OF assms(1) assms(2)]
  consider "f = F_list_projects" | "f = F_list_deployments" | "f = F_get_project_info"
    | "f = F_check_server_status" | "f = F_set_vercel_token" | "f = F_list_project_domains"
    | "f = F_list_environment_variables" | "f = F_get_user_info"
    | "f = F_list_deployment_aliases"
    by auto
  then show ?thesis
  proof cases
    case 1
    with call_function_returned [OF assms(3)]
    have "v = fst (list_projects w s)" "s' = snd (list_projects w s)"
      by (auto simp: returned_eq)
    with fields_of_tool [OF tool_shape(1), of w s] 1 show ?thesis by auto
  next
    case 2
    with call_function_returned [OF assms(3)]
    obtain a where "v = fst (list_deployments w (a ''project_id'') (a ''limit'') s)"
      "s' = snd (list_deployments w (a ''project_id'') (a ''limit'') s)"
      by (auto simp: returned_eq)
    with fields_of_tool [OF tool_shape(2), of w "a ''project_id''" "a ''limit''" s] 2
    show ?thesis by auto
  next
    case 3
    with call_function_returned [OF assms(3)]
    obtain a where "v = fst (get_project_info w (a ''project_id'') s)"
      "s' = snd (get_project_info w (a ''project_id'') s)"
      by (auto simp: returned_eq)
    with fields_of_tool [OF tool_shape(3), of w "a ''project_id''" s] 3
    show ?thesis by auto
  next
    case 4
    with call_function_returned [OF assms(3)]
    have "v = fst (check_server_status w s)" "s' = snd (check_server_status w s)"
      by (auto simp: returned_eq)
    with check_server_status_fields [of w s] 4 show ?thesis by auto
  next
    case 5
    then have "parameters f = Some [(''token'', None)]" by simp
    from call_function_returned [OF assms(3) this] 5
    obtain a where "run_body w F_set_vercel_token a kwargs s = (Returned v, s')" by blast
    from set_vercel_token_fields [OF run_body_set_vercel_token [OF this]] 5
    show ?thesis by auto
  next
    case 6
    with call_function_returned [OF assms(3)]
    obtain a where "v = fst (list_project_domains w (a ''project_id'') s)"
      "s' = snd (list_project_domains w (a ''project_id'') s)"
      by (auto simp: returned_eq)
    with fields_of_tool [OF tool_shape(4), of w "a ''project_id''" s] 6
    show ?thesis by auto
  next
    case 7
    with call_function_returned [OF assms(3)]
    obtain a where "v = fst (list_environment_variables w (a ''project_id'') s)"
      "s' = snd (list_environment_variables w (a ''project_id'') s)"
      by (auto simp: returned_eq)
    with fields_of_tool [OF tool_shape(5), of w "a ''project_id''" s] 7
    show ?thesis by auto
  next
    case 8
    with call_function_returned [OF assms(3)]
    have "v = fst (get_user_info w s)" "s' = snd (get_user_info w s)"
      by (auto simp: returned_eq)
    with fields_of_tool [OF tool_shape(6), of w s] 8 show ?thesis by auto
  next
    case 9
    with call_function_returned [OF assms(3)]
    obtain a where "v = fst (list_deployment_aliases w (a ''deployment_id'') s)"
      "s' = snd (list_deployment_aliases w (a ''deployment_id'') s)"
      by (auto simp: returned_eq)
    with fields_of_tool [OF tool_shape(7), of w "a ''deployment_id''" s] 9
    show ?thesis by auto
  qed
qed

text \<open>\<open>get_user_info\<close>, answered with 200 by the upstream.\<close>

theorem registered_tool_envelope_witness:
  "\<exists>v s'.
     ''get_user_info'' \<in> set known_tools
   \<and> map_of module_callables ''get_user_info'' = Some F_get_user_info
   \<and> call_function (stub_world answer_200) F_get_user_info (JObj []) (stub_state ''tok'')
       = (Returned v, s')
   \<and> field v ''timestamp''
       = Some (JStr (isoformat (stub_world answer_200) (clock_reads s' - 1)))
   \<and> (field v ''status'' = Some (JStr ''success'')
      \<or> field v ''status'' = Some (JStr ''error''))"
proof -
  have a: "''get_user_info'' \<in> set known_tools" by (simp add: known_tools_def)
  have b: "map_of module_callables ''get_user_info'' = Some F_get_user_info"
    by (simp add: module_callables_def)
  have c: "call_function (stub_world answer_200) F_get_user_info (JObj []) (stub_state ''tok'')
       = (Returned (fst (get_user_info (stub_world answer_200) (stub_state ''tok''))),
          snd (get_user_info (stub_world answer_200) (stub_state ''tok'')))"
    by (simp add: call_function_def bind_kwargs_def returned_eq)
  from registered_tool_envelope [OF a b c] a b c show ?thesis by blast
qed

end
